theory Spec2Isabelle
  imports Main
begin

section \<open>The training entry point of aplatam (src/aplatam/train.py)\<close>

text \<open>
  The module is a linear pipeline: parse the command line, configure logging, read the
  configuration file, enumerate the rasters of a directory, check that every raster has
  four bands, call the training-set builder, log completion.

  Everything the module does to the outside world is recorded in a trace of events, in the
  order in which it happens; every exception is a value. A computation takes the trace so
  far and returns its result (or the exception raised) with the extended trace.
\<close>

subsection \<open>Exceptions, events, computations\<close>

type_synonym path = string

datatype exn =
    RuntimeError string
  | KeyError string
  | SystemExit int
  | ValueError
  | RasterioIOError path
  | FionaError path
  | ConfigParsingError path
  | InterpolationSyntaxError
  | InterpolationMissingOptionError string
  | InterpolationDepthError
  | ExternalError string

text \<open>The configuration handed to the builder: a Python dict, as its items in order.\<close>

type_synonym config = "(string \<times> string) list"

text \<open>
  The value \<open>argparse\<close> stores for a positional argument. It is the argument string, except
  that \<open>argparse\<close> first deletes one \<open>--\<close> from the strings matched to a positional: when
  the only string is \<open>--\<close>, nothing is left and the stored value is the empty list.
\<close>

datatype argval = Str string | EmptyList

datatype event =
    Log int string
  | BasicConfig "int option"
  | ConfigRead path
  | RasterOpen path
  | RasterClose path
  | VectorOpen path
  | VectorClose path
  | AllRasterFiles argval
  | BuildTrainset "path list" argval config path

type_synonym 'a comp = "event list \<Rightarrow> (exn + 'a) \<times> event list"

definition return :: "'a \<Rightarrow> 'a comp" where
  "return x t = (Inr x, t)"

definition raise :: "exn \<Rightarrow> 'a comp" where
  "raise e t = (Inl e, t)"

definition emit :: "event \<Rightarrow> unit comp" where
  "emit ev t = (Inr (), t @ [ev])"

text \<open>Sequencing: an exception of the first computation skips the second.\<close>

definition bind :: "'a comp \<Rightarrow> ('a \<Rightarrow> 'b comp) \<Rightarrow> 'b comp" where
  "bind m f t = (case m t of (Inl e, t') \<Rightarrow> (Inl e, t') | (Inr x, t') \<Rightarrow> f x t')"

subsection \<open>Logging\<close>

definition DEBUG :: int where "DEBUG = 10"
definition INFO :: int where "INFO = 20"
definition WARNING :: int where "WARNING = 30"

text \<open>\<open>_logger.debug(msg)\<close> and \<open>_logger.info(msg)\<close>: a record handed to the module logger.\<close>

definition logger_debug :: "string \<Rightarrow> unit comp" where
  "logger_debug msg = emit (Log DEBUG msg)"

definition logger_info :: "string \<Rightarrow> unit comp" where
  "logger_info msg = emit (Log INFO msg)"

text \<open>\<open>setup_logging\<close>: one call of \<open>logging.basicConfig\<close> with the given level, on stdout.\<close>

definition setup_logging :: "int option \<Rightarrow> unit comp" where
  "setup_logging loglevel = emit (BasicConfig loglevel)"

text \<open>
  Which records of the module logger reach stdout. \<open>basicConfig\<close> installs the stdout handler
  on its first call only and sets the root level when a level is given; the root level is
  WARNING otherwise. The module logger has no level of its own, so one of its records
  passes when its level is at least the root level. Before any \<open>basicConfig\<close> nothing is
  written to stdout. The handler sits on the root logger, so the records of other
  libraries' loggers (\<open>rasterio\<close>, \<open>fiona\<close>) reach stdout by the same rule; they are no events
  of this module and are not listed here.
\<close>

fun stdout_from :: "int \<Rightarrow> event list \<Rightarrow> (int \<times> string) list" where
  "stdout_from lvl [] = []"
| "stdout_from lvl (Log l msg # evs) =
     (if lvl \<le> l then (l, msg) # stdout_from lvl evs else stdout_from lvl evs)"
| "stdout_from lvl (ev # evs) = stdout_from lvl evs"

fun stdout_records :: "event list \<Rightarrow> (int \<times> string) list" where
  "stdout_records [] = []"
| "stdout_records (BasicConfig loglevel # evs) =
     stdout_from (case loglevel of None \<Rightarrow> WARNING | Some l \<Rightarrow> l) evs"
| "stdout_records (ev # evs) = stdout_records evs"

subsection \<open>The environment\<close>

text \<open>An INI file as \<open>configparser\<close> holds it after reading: the options of the DEFAULT
  section and the named sections, option names already lower-cased.\<close>

record ini =
  defaults :: "(string \<times> string) list"
  sections :: "(string \<times> (string \<times> string) list) list"

text \<open>What \<open>ConfigParser.read\<close> meets at a path: a file it cannot open (an OSError, which
  it swallows), a file it opens and rejects, or a file it parses.\<close>

datatype cfg_file = Unreadable | Malformed | Parsed ini

type_synonym crs = "(string \<times> string) list"

text \<open>
  The world the module runs in. \<open>raster_count\<close> is the band count \<open>rasterio\<close> reports for a
  path (None: it cannot open it), \<open>vector_crs\<close> the CRS \<open>fiona\<close> reports, \<open>config_files\<close> what
  \<open>configparser\<close> finds at a path, \<open>gettempdir\<close> the result of \<open>tempfile.gettempdir()\<close>.

  The module imports \<open>all_raster_files\<close> from \<open>aplatam.util\<close> and \<open>build_trainset\<close> from
  \<open>aplatam.build_trainset\<close>; their code is not part of the module. They are parameters:
  the enumeration returns a list of paths or raises, the builder returns (None) or
  raises.
\<close>

record env =
  raster_count :: "path \<Rightarrow> int option"
  vector_crs :: "path \<Rightarrow> crs option"
  config_files :: "path \<Rightarrow> cfg_file"
  all_raster_files :: "argval \<Rightarrow> exn + path list"
  build_trainset :: "path list \<Rightarrow> argval \<Rightarrow> config \<Rightarrow> path \<Rightarrow> exn option"
  gettempdir :: path

subsection \<open>Formatting an integer\<close>

text \<open>\<open>'{}'.format(count)\<close> for a Python int: decimal digits, a minus sign when negative.
  CPython 3.11 refuses to write an integer of more than 4300 digits: see \<open>format_band_count\<close>
  below.\<close>

definition digit_char :: "nat \<Rightarrow> char" where
  "digit_char d = ''0123456789'' ! (d mod 10)"

fun digits_of :: "nat \<Rightarrow> string" where
  "digits_of n = (if n < 10 then [digit_char n] else digits_of (n div 10) @ [digit_char (n mod 10)])"

declare digits_of.simps [simp del]

definition str_int :: "int \<Rightarrow> string" where
  "str_int i = (if i < 0 then CHR ''-'' # digits_of (nat (- i)) else digits_of (nat i))"

subsection \<open>Raster band-count validation\<close>

text \<open>\<open>get_raster_band_count\<close>: open the raster, read \<open>dataset.count\<close>, close it on leaving
  the \<open>with\<close> block. \<open>rasterio.open\<close> raises when the path is not a raster it can open.\<close>

definition get_raster_band_count :: "env \<Rightarrow> path \<Rightarrow> int comp" where
  "get_raster_band_count E raster_path =
     bind (emit (RasterOpen raster_path)) (\<lambda>_.
       case raster_count E raster_path of
         None \<Rightarrow> raise (RasterioIOError raster_path)
       | Some count \<Rightarrow> bind (emit (RasterClose raster_path)) (\<lambda>_. return count))"

definition band_count_message :: "int \<Rightarrow> string" where
  "band_count_message count = ''Rasters must have exactly 4 bands (was '' @ str_int count @ '')''"

text \<open>\<open>'Rasters must have exactly 4 bands (was {})'.format(count)\<close>: the message, or the
  ValueError of CPython 3.11 for an integer of more than 4300 digits.\<close>

definition format_band_count :: "int \<Rightarrow> exn + string" where
  "format_band_count count =
     (if 4300 < length (digits_of (nat \<bar>count\<bar>)) then Inl ValueError
      else Inr (band_count_message count))"

text \<open>The \<open>for\<close> loop of \<open>validate_rasters_band_count\<close>.\<close>

fun validate_loop :: "env \<Rightarrow> path list \<Rightarrow> bool comp" where
  "validate_loop E [] = return True"
| "validate_loop E (raster_path # rasters) =
     bind (get_raster_band_count E raster_path) (\<lambda>count.
       if count \<noteq> 4 then
         (case format_band_count count of
            Inl e \<Rightarrow> raise e
          | Inr message \<Rightarrow> raise (RuntimeError message))
       else validate_loop E rasters)"

definition validate_rasters_band_count :: "env \<Rightarrow> path list \<Rightarrow> bool comp" where
  "validate_rasters_band_count E rasters =
     bind (logger_debug ''Validate rasters band count'') (\<lambda>_. validate_loop E rasters)"

text \<open>\<open>get_vector_crs\<close>: open the vector file, read its CRS, close it.\<close>

definition get_vector_crs :: "env \<Rightarrow> path \<Rightarrow> crs comp" where
  "get_vector_crs E vector_path =
     bind (emit (VectorOpen vector_path)) (\<lambda>_.
       case vector_crs E vector_path of
         None \<Rightarrow> raise (FionaError vector_path)
       | Some c \<Rightarrow> bind (emit (VectorClose vector_path)) (\<lambda>_. return c))"

subsection \<open>Reading the configuration file\<close>

text \<open>\<open>str.lower\<close> on ASCII letters, the \<open>optionxform\<close> of \<open>configparser\<close>.\<close>

definition lower_char :: "char \<Rightarrow> char" where
  "lower_char c =
     (case map_of (zip ''ABCDEFGHIJKLMNOPQRSTUVWXYZ'' ''abcdefghijklmnopqrstuvwxyz'') c of
        None \<Rightarrow> c | Some d \<Rightarrow> d)"

text \<open>
  \<open>BasicInterpolation._interpolate_some\<close>, the interpolation \<open>ConfigParser\<close> applies to a value
  on \<open>get\<close>: \<open>%%\<close> is a percent sign, \<open>%(name)s\<close> is the value of option \<open>name\<close> (itself
  interpolated when it contains a percent sign), any other use of \<open>%\<close> is a syntax error.
  The first argument counts the nesting levels left: \<open>MAX_INTERPOLATION_DEPTH\<close> is 10.
\<close>

function interpolate_some :: "nat \<Rightarrow> (string \<rightharpoonup> string) \<Rightarrow> string \<Rightarrow> exn + string" where
  "interpolate_some 0 m rest = Inl InterpolationDepthError"
| "interpolate_some (Suc d) m [] = Inr []"
| "interpolate_some (Suc d) m (c # cs) =
     (if c \<noteq> CHR ''%'' then
        (case interpolate_some (Suc d) m cs of Inl e \<Rightarrow> Inl e | Inr s \<Rightarrow> Inr (c # s))
      else case cs of
        [] \<Rightarrow> Inl InterpolationSyntaxError
      | c2 # cs2 \<Rightarrow>
          if c2 = CHR ''%'' then
            (case interpolate_some (Suc d) m cs2 of Inl e \<Rightarrow> Inl e | Inr s \<Rightarrow> Inr (CHR ''%'' # s))
          else if c2 = CHR ''('' then
            (if takeWhile (\<lambda>x. x \<noteq> CHR '')'') cs2 = []
                \<or> take 2 (dropWhile (\<lambda>x. x \<noteq> CHR '')'') cs2) \<noteq> '')s''
             then Inl InterpolationSyntaxError
             else case m (map lower_char (takeWhile (\<lambda>x. x \<noteq> CHR '')'') cs2)) of
               None \<Rightarrow> Inl (InterpolationMissingOptionError
                               (map lower_char (takeWhile (\<lambda>x. x \<noteq> CHR '')'') cs2)))
             | Some v \<Rightarrow>
                 (case (if CHR ''%'' \<in> set v then interpolate_some d m v else Inr v) of
                    Inl e \<Rightarrow> Inl e
                  | Inr s \<Rightarrow>
                      (case interpolate_some (Suc d) m
                              (drop 2 (dropWhile (\<lambda>x. x \<noteq> CHR '')'') cs2)) of
                         Inl e \<Rightarrow> Inl e
                       | Inr s' \<Rightarrow> Inr (s @ s'))))
          else Inl InterpolationSyntaxError)"
  by pat_completeness auto
termination
  by (relation "measures [\<lambda>(d, m, r). d, \<lambda>(d, m, r). length r]")
     (auto simp: less_Suc_eq_le intro!: le_SucI order_trans [OF diff_le_self length_dropWhile_le])

text \<open>
  \<open>dict(section)\<close> for a section of the parser: the keys are the options of the section
  followed by the options of DEFAULT that the section does not have; each value is
  \<open>parser.get(section, key)\<close>, the section's value before the default's, interpolated over
  the same chain of values.
\<close>

fun get_values :: "(string \<rightharpoonup> string) \<Rightarrow> string list \<Rightarrow> exn + config" where
  "get_values m [] = Inr []"
| "get_values m (k # ks) =
     (case m k of
        None \<Rightarrow> Inl (KeyError k)
      | Some raw \<Rightarrow>
          (case interpolate_some 10 m raw of
             Inl e \<Rightarrow> Inl e
           | Inr v \<Rightarrow> (case get_values m ks of Inl e \<Rightarrow> Inl e | Inr kvs \<Rightarrow> Inr ((k, v) # kvs))))"

definition section_dict :: "ini \<Rightarrow> (string \<times> string) list \<Rightarrow> exn + config" where
  "section_dict cfg opts =
     get_values (map_of (opts @ defaults cfg))
       (map fst opts @ filter (\<lambda>k. k \<notin> set (map fst opts)) (map fst (defaults cfg)))"

text \<open>\<open>dict(config['train'])\<close>: a KeyError when the parser has no section of that name.\<close>

definition train_dict :: "ini \<Rightarrow> exn + config" where
  "train_dict cfg =
     (case map_of (sections cfg) ''train'' of
        None \<Rightarrow> Inl (KeyError ''train'')
      | Some opts \<Rightarrow> section_dict cfg opts)"

text \<open>\<open>config = ConfigParser(); config.read(config_file)\<close>: a file that cannot be opened is
  skipped and leaves the parser empty.\<close>

definition config_read :: "env \<Rightarrow> path \<Rightarrow> ini comp" where
  "config_read E config_file =
     bind (emit (ConfigRead config_file)) (\<lambda>_.
       case config_files E config_file of
         Unreadable \<Rightarrow> return \<lparr>defaults = [], sections = []\<rparr>
       | Malformed \<Rightarrow> raise (ConfigParsingError config_file)
       | Parsed cfg \<Rightarrow> return cfg)"

definition lift :: "exn + 'a \<Rightarrow> 'a comp" where
  "lift r = (case r of Inl e \<Rightarrow> raise e | Inr x \<Rightarrow> return x)"

definition read_config_file :: "env \<Rightarrow> path \<Rightarrow> config comp" where
  "read_config_file E config_file =
     bind (logger_debug ''read config file'') (\<lambda>_.
     bind (config_read E config_file) (\<lambda>cfg.
     lift (train_dict cfg)))"

subsection \<open>The command line\<close>

text \<open>
  \<open>parse_args\<close> declares an \<open>argparse\<close> parser and runs it. The declarations are data:
  the actions, their option strings in the order of registration (\<open>-h/--help\<close> is added by
  \<open>ArgumentParser\<close> itself), which of them take an argument, and what they store. The
  functions after them are the scan \<open>ArgumentParser.parse_args\<close> performs, as in the
  \<open>argparse\<close> of CPython 3.11, for these declarations. An exit is the exception
  \<open>SystemExit\<close> with its status; what \<open>argparse\<close> prints before it (usage, help, version) is
  not recorded. Argument strings are ASCII.
\<close>

datatype action =
  Help | Version | ConfigFile | OutputModel | Seed | TempDir | Verbose | VeryVerbose

definition option_string_actions :: "(string \<times> action) list" where
  "option_string_actions =
     [(''-h'', Help), (''--help'', Help),
      (''--version'', Version),
      (''-c'', ConfigFile), (''--config-file'', ConfigFile),
      (''-o'', OutputModel), (''--output-model'', OutputModel),
      (''--seed'', Seed),
      (''--temp-dir'', TempDir),
      (''-v'', Verbose), (''--verbose'', Verbose),
      (''-vv'', VeryVerbose), (''--very-verbose'', VeryVerbose)]"

text \<open>The \<open>store\<close> actions take one argument; \<open>help\<close>, \<open>version\<close> and \<open>store_const\<close> take none.\<close>

fun takes_argument :: "action \<Rightarrow> bool" where
  "takes_argument ConfigFile = True"
| "takes_argument OutputModel = True"
| "takes_argument Seed = True"
| "takes_argument TempDir = True"
| "takes_argument a = False"

record namespace =
  rasters_dir :: argval
  vector :: argval
  config_file :: string
  output_model :: string
  seed :: "int option"
  temp_dir :: string
  loglevel :: "int option"

text \<open>The namespace while the scan runs: the positionals not yet filled, the strings
  nothing consumed, and the attributes (None for an attribute without a default).\<close>

datatype positional = RastersDir | VectorFile

record pstate =
  positionals :: "positional list"
  extras :: "string list"
  p_rasters_dir :: "argval option"
  p_vector :: "argval option"
  p_config_file :: string
  p_output_model :: string
  p_seed :: "int option"
  p_temp_dir :: string
  p_loglevel :: "int option"

definition initial_pstate :: "path \<Rightarrow> pstate" where
  "initial_pstate tmp =
     \<lparr>positionals = [RastersDir, VectorFile], extras = [],
      p_rasters_dir = None, p_vector = None,
      p_config_file = ''default.cfg'', p_output_model = ''model.h5'',
      p_seed = None, p_temp_dir = tmp, p_loglevel = None\<rparr>"

text \<open>\<open>int(s)\<close> on a string: surrounding whitespace is dropped, then an optional sign and
  decimal digits, where single underscores may separate digits; a literal of more than
  4300 digits is refused (the limit of CPython 3.11 on converting strings to integers).
  None is Python's ValueError.\<close>

definition is_digit :: "char \<Rightarrow> bool" where
  "is_digit c = (c \<in> set ''0123456789'')"

definition is_space :: "char \<Rightarrow> bool" where
  "is_space c = (c \<in> set [CHR '' '', CHR 0x09, CHR 0x0A, CHR 0x0B, CHR 0x0C, CHR 0x0D,
                            CHR 0x1C, CHR 0x1D, CHR 0x1E, CHR 0x1F])"

definition strip :: "string \<Rightarrow> string" where
  "strip s = rev (dropWhile is_space (rev (dropWhile is_space s)))"

definition digit_value :: "char \<Rightarrow> int" where
  "digit_value c =
     (case map_of (zip ''0123456789'' [0, 1, 2, 3, 4, 5, 6, 7, 8, 9]) c of
        None \<Rightarrow> 0 | Some v \<Rightarrow> v)"

fun underscores_ok :: "string \<Rightarrow> bool" where
  "underscores_ok [] = False"
| "underscores_ok [c] = is_digit c"
| "underscores_ok (c # d # cs) =
     (if is_digit c then underscores_ok (d # cs)
      else c = CHR ''_'' \<and> is_digit d \<and> underscores_ok (d # cs))"

definition decimal :: "string \<Rightarrow> int option" where
  "decimal body =
     (case body of
        [] \<Rightarrow> None
      | c # cs \<Rightarrow>
          if is_digit c \<and> underscores_ok body
          then Some (foldl (\<lambda>acc x. 10 * acc + digit_value x) 0
                       (filter (\<lambda>x. x \<noteq> CHR ''_'') body))
          else None)"

definition signed_decimal :: "string \<Rightarrow> int option" where
  "signed_decimal s =
     (case s of
        [] \<Rightarrow> None
      | c # cs \<Rightarrow>
          if c = CHR ''-'' then map_option uminus (decimal cs)
          else if c = CHR ''+'' then decimal cs
          else decimal (c # cs))"

definition py_int :: "string \<Rightarrow> int option" where
  "py_int s =
     (case signed_decimal (strip s) of
        None \<Rightarrow> None
      | Some i \<Rightarrow> if length (filter is_digit s) > 4300 then None else Some i)"

text \<open>How \<open>argparse\<close> reads one argument string: a positional argument, the \<open>--\<close>
  separator, or an option: the action (None for an unknown option), the option string
  that matched, and the argument attached to it, if any, with whether an \<open>=\<close> attached it.\<close>

datatype kind = A | Dash | Opt "action option" string "(bool \<times> string) option"

text \<open>\<open>s.partition('=')\<close>: the parts before and after the first \<open>=\<close>.\<close>

definition partition_eq :: "string \<Rightarrow> string \<times> string" where
  "partition_eq s =
     (takeWhile (\<lambda>c. c \<noteq> CHR ''='') s, drop 1 (dropWhile (\<lambda>c. c \<noteq> CHR ''='') s))"

definition startswith :: "string \<Rightarrow> string \<Rightarrow> bool" where
  "startswith s pre = (take (length pre) s = pre)"

text \<open>\<open>_get_option_tuples\<close>: the options the string abbreviates. A string with two dashes is
  a prefix of a long option, perhaps with \<open>=value\<close>; a string with one dash is a short
  option with its argument attached, or a prefix of an option.\<close>

definition get_option_tuples :: "string \<Rightarrow> (action \<times> string \<times> (bool \<times> string) option) list" where
  "get_option_tuples s =
     (if take 2 s = ''--'' then
        (let option_prefix = fst (partition_eq s);
             explicit_arg = (if CHR ''='' \<in> set s then Some (True, snd (partition_eq s)) else None)
         in concat (map (\<lambda>(option_string, a).
                       if startswith option_string option_prefix
                       then [(a, option_string, explicit_arg)] else [])
                     option_string_actions))
      else
        concat (map (\<lambda>(option_string, a).
                  if option_string = take 2 s then [(a, option_string, Some (False, drop 2 s))]
                  else if startswith option_string s then [(a, option_string, None)]
                  else [])
                option_string_actions))"

text \<open>The pattern \<open>^-\d+$|^-\d*\.\d+$\<close>; \<open>$\<close> also matches before a final newline.\<close>

definition negative_number :: "string \<Rightarrow> bool" where
  "negative_number s =
     (let s' = (if s \<noteq> [] \<and> last s = CHR 0x0A then butlast s else s) in
      case s' of
        [] \<Rightarrow> False
      | c # r \<Rightarrow>
          c = CHR ''-'' \<and>
          ((r \<noteq> [] \<and> list_all is_digit r) \<or>
           (case dropWhile is_digit r of
              [] \<Rightarrow> False
            | p # f \<Rightarrow> p = CHR ''.'' \<and> f \<noteq> [] \<and> list_all is_digit f)))"

text \<open>\<open>_parse_optional\<close>. An ambiguous abbreviation is a usage error: exit status 2.\<close>

definition parse_optional :: "string \<Rightarrow> exn + kind" where
  "parse_optional s =
     (case s of
        [] \<Rightarrow> Inr A
      | c # cs \<Rightarrow>
          (if c \<noteq> CHR ''-'' then Inr A
           else (case map_of option_string_actions s of
             Some a \<Rightarrow> Inr (Opt (Some a) s None)
           | None \<Rightarrow>
               (if length s = 1 then Inr A
                else (case (if CHR ''='' \<in> set s
                            then map_of option_string_actions (fst (partition_eq s))
                            else None) of
                  Some a \<Rightarrow>
                    Inr (Opt (Some a) (fst (partition_eq s)) (Some (True, snd (partition_eq s))))
                | None \<Rightarrow>
                    (case get_option_tuples s of
                       [] \<Rightarrow>
                         (if negative_number s then Inr A
                          else if CHR '' '' \<in> set s then Inr A
                          else Inr (Opt None s None))
                     | [(a, option_string, explicit_arg)] \<Rightarrow>
                         Inr (Opt (Some a) option_string explicit_arg)
                     | _ \<Rightarrow> Inl (SystemExit 2)))))))"

text \<open>The first pass over the arguments: every string after \<open>--\<close> is an argument.\<close>

fun classify :: "string list \<Rightarrow> exn + (string \<times> kind) list" where
  "classify [] = Inr []"
| "classify (s # ss) =
     (if s = ''--'' then Inr ((s, Dash) # map (\<lambda>x. (x, A)) ss)
      else case parse_optional s of
        Inl e \<Rightarrow> Inl e
      | Inr k \<Rightarrow> (case classify ss of Inl e \<Rightarrow> Inl e | Inr items \<Rightarrow> Inr ((s, k) # items)))"

text \<open>
  \<open>take_action\<close>: \<open>help\<close> and \<open>version\<close> print and exit with status 0; a \<open>store\<close> action
  stores its argument, converted by \<open>int\<close> for \<open>--seed\<close> (a string \<open>int\<close> rejects is a usage
  error); the two verbosity flags store their constant in \<open>loglevel\<close>. The second argument
  is the string given to an action that takes one.
\<close>

fun take_action :: "action \<Rightarrow> string \<Rightarrow> pstate \<Rightarrow> exn + pstate" where
  "take_action Help v st = Inl (SystemExit 0)"
| "take_action Version v st = Inl (SystemExit 0)"
| "take_action ConfigFile v st = Inr (st\<lparr>p_config_file := v\<rparr>)"
| "take_action OutputModel v st = Inr (st\<lparr>p_output_model := v\<rparr>)"
| "take_action Seed v st =
     (case py_int v of
        None \<Rightarrow> Inl (SystemExit 2)
      | Some i \<Rightarrow> Inr (st\<lparr>p_seed := Some i\<rparr>))"
| "take_action TempDir v st = Inr (st\<lparr>p_temp_dir := v\<rparr>)"
| "take_action Verbose v st = Inr (st\<lparr>p_loglevel := Some INFO\<rparr>)"
| "take_action VeryVerbose v st = Inr (st\<lparr>p_loglevel := Some DEBUG\<rparr>)"

fun take_actions :: "(action \<times> string) list \<Rightarrow> pstate \<Rightarrow> exn + pstate" where
  "take_actions [] st = Inr st"
| "take_actions ((a, v) # as) st =
     (case take_action a v st of Inl e \<Rightarrow> Inl e | Inr st' \<Rightarrow> take_actions as st')"

text \<open>
  The loop of \<open>consume_optional\<close> for an option with an attached argument. A single-dash
  flag that takes no argument reads a non-empty attached string as further single-dash
  flags (\<open>-vh\<close> is \<open>-v -h\<close>), unless an \<open>=\<close> attached it or it starts with a dash (usage
  error); a character that is no flag makes the rest of the string an extra. An action
  that takes an argument takes the attached string. Anything else is a usage error.
  The result is the flags met on the way and how the loop ends: with an action and its
  attached argument, with an action that looks for its argument in the strings that
  follow, or with an extra.
\<close>

datatype chain_end = Attached action string | Following action | Extra string

fun explicit_chain ::
  "action \<Rightarrow> string \<Rightarrow> bool \<Rightarrow> string \<Rightarrow> exn + (action list \<times> chain_end)" where
  "explicit_chain a option_string sep explicit_arg =
     (if \<not> takes_argument a \<and> take 1 (drop 1 option_string) \<noteq> ''-'' \<and> explicit_arg \<noteq> [] then
        (case explicit_arg of
           [] \<Rightarrow> Inl (SystemExit 2)
         | c # rest \<Rightarrow>
             (if sep \<or> c = CHR ''-'' then Inl (SystemExit 2)
              else (case map_of option_string_actions [CHR ''-'', c] of
                None \<Rightarrow> Inr ([a], Extra (CHR ''-'' # explicit_arg))
              | Some a' \<Rightarrow>
                  (case rest of
                     [] \<Rightarrow> Inr ([a], Following a')
                   | d # rest' \<Rightarrow>
                       (case (if d = CHR ''=''
                              then explicit_chain a' [CHR ''-'', c] True rest'
                              else explicit_chain a' [CHR ''-'', c] False (d # rest')) of
                          Inl e \<Rightarrow> Inl e
                        | Inr (flags, chain_end) \<Rightarrow> Inr (a # flags, chain_end))))))
      else if takes_argument a then Inr ([], Attached a explicit_arg)
      else Inl (SystemExit 2))"

declare explicit_chain.simps [simp del]

definition assign_positional :: "positional \<Rightarrow> argval \<Rightarrow> pstate \<Rightarrow> pstate" where
  "assign_positional p v st =
     (case p of
        RastersDir \<Rightarrow> st\<lparr>p_rasters_dir := Some v\<rparr>
      | VectorFile \<Rightarrow> st\<lparr>p_vector := Some v\<rparr>)"

definition is_dash :: "string \<times> kind \<Rightarrow> bool" where
  "is_dash item = (snd item = Dash)"

definition is_option :: "string \<times> kind \<Rightarrow> bool" where
  "is_option item = (case snd item of Opt a option_string explicit_arg \<Rightarrow> True | _ \<Rightarrow> False)"

text \<open>\<open>_get_values\<close> for a positional whose only string is \<open>v\<close>: the string \<open>--\<close> is deleted
  and leaves the empty list.\<close>

definition get_value :: "string \<Rightarrow> argval" where
  "get_value v = (if v = ''--'' then EmptyList else Str v)"

text \<open>
  \<open>consume_positionals\<close> once no option is ahead: each positional still to fill matches
  \<open>-*A-*\<close>, the separator before or after one argument, as long as an argument is left.
  From the strings matched, one \<open>--\<close> is deleted; what remains is the value. The strings
  no positional matched are extras.
\<close>

fun consume_positionals :: "positional list \<Rightarrow> pstate \<Rightarrow> (string \<times> kind) list \<Rightarrow> pstate" where
  "consume_positionals [] st items = st\<lparr>positionals := [], extras := extras st @ map fst items\<rparr>"
| "consume_positionals (p # ps) st items =
     (case dropWhile is_dash items of
        [] \<Rightarrow> st\<lparr>positionals := p # ps, extras := extras st @ map fst items\<rparr>
      | (s, k) # rest \<Rightarrow>
          consume_positionals ps
            (assign_positional p
               (if takeWhile is_dash items = [] \<and> takeWhile is_dash rest = []
                then get_value s else Str s) st)
            (dropWhile is_dash rest))"

text \<open>
  The main loop of \<open>_parse_known_args\<close>, one argument string at a time. While an option is
  ahead, an argument fills the next positional, or is an extra when none is left. An
  unknown option is an extra. A known option is resolved with its attached argument, or
  takes the next string when it needs an argument and that string is an argument
  (otherwise: usage error); then its actions are taken in order. Once no option is
  ahead (as after \<open>--\<close>), the remaining strings go to \<open>consume_positionals\<close>.
\<close>

fun scan :: "pstate \<Rightarrow> (string \<times> kind) list \<Rightarrow> exn + pstate" where
  "scan st [] = Inr (consume_positionals (positionals st) st [])"
| "scan st ((s, Opt None option_string explicit_arg) # rest) =
     scan (st\<lparr>extras := extras st @ [s]\<rparr>) rest"
| "scan st ((s, Opt (Some a) option_string (Some (sep, explicit_arg))) # rest) =
     (case explicit_chain a option_string sep explicit_arg of
        Inl e \<Rightarrow> Inl e
      | Inr (flags, Attached last_action v) \<Rightarrow>
          (case take_actions (map (\<lambda>f. (f, [])) flags @ [(last_action, v)]) st of
             Inl e \<Rightarrow> Inl e
           | Inr st' \<Rightarrow> scan st' rest)
      | Inr (flags, Extra x) \<Rightarrow>
          (case take_actions (map (\<lambda>f. (f, [])) flags) (st\<lparr>extras := extras st @ [x]\<rparr>) of
             Inl e \<Rightarrow> Inl e
           | Inr st' \<Rightarrow> scan st' rest)
      | Inr (flags, Following last_action) \<Rightarrow>
          (if takes_argument last_action then
             (case rest of
                (v, A) # rest' \<Rightarrow>
                  (case take_actions (map (\<lambda>f. (f, [])) flags @ [(last_action, v)]) st of
                     Inl e \<Rightarrow> Inl e
                   | Inr st' \<Rightarrow> scan st' rest')
              | _ \<Rightarrow> Inl (SystemExit 2))
           else
             (case take_actions (map (\<lambda>f. (f, [])) flags @ [(last_action, [])]) st of
                Inl e \<Rightarrow> Inl e
              | Inr st' \<Rightarrow> scan st' rest)))"
| "scan st ((s, Opt (Some a) option_string None) # rest) =
     (if takes_argument a then
        (case rest of
           (v, A) # rest' \<Rightarrow>
             (case take_action a v st of Inl e \<Rightarrow> Inl e | Inr st' \<Rightarrow> scan st' rest')
         | _ \<Rightarrow> Inl (SystemExit 2))
      else
        (case take_action a [] st of Inl e \<Rightarrow> Inl e | Inr st' \<Rightarrow> scan st' rest))"
| "scan st ((s, A) # rest) =
     (if list_ex is_option rest then
        (case positionals st of
           [] \<Rightarrow> scan (st\<lparr>extras := extras st @ [s]\<rparr>) rest
         | p # ps \<Rightarrow> scan (assign_positional p (Str s) (st\<lparr>positionals := ps\<rparr>)) rest)
      else Inr (consume_positionals (positionals st) st ((s, A) # rest)))"
| "scan st ((s, Dash) # rest) =
     Inr (consume_positionals (positionals st) st ((s, Dash) # rest))"

text \<open>After the scan: a positional left unfilled is a missing required argument, an extra
  is an unrecognized argument; both are usage errors.\<close>

definition finish :: "pstate \<Rightarrow> exn + namespace" where
  "finish st =
     (case (p_rasters_dir st, p_vector st) of
        (Some r, Some v) \<Rightarrow>
          (if extras st \<noteq> [] then Inl (SystemExit 2)
           else Inr \<lparr>rasters_dir = r, vector = v, config_file = p_config_file st,
                     output_model = p_output_model st, seed = p_seed st,
                     temp_dir = p_temp_dir st, loglevel = p_loglevel st\<rparr>)
      | _ \<Rightarrow> Inl (SystemExit 2))"

definition parse_args :: "env \<Rightarrow> string list \<Rightarrow> exn + namespace" where
  "parse_args E args =
     (case classify args of
        Inl e \<Rightarrow> Inl e
      | Inr items \<Rightarrow>
          (case scan (initial_pstate (gettempdir E)) items of
             Inl e \<Rightarrow> Inl e
           | Inr st \<Rightarrow> finish st))"

subsection \<open>The entry point\<close>

text \<open>The two imported functions, called: the call is an event, the outcome is the
  environment's.\<close>

definition call_all_raster_files :: "env \<Rightarrow> argval \<Rightarrow> path list comp" where
  "call_all_raster_files E dir =
     bind (emit (AllRasterFiles dir)) (\<lambda>_. lift (all_raster_files E dir))"

definition call_build_trainset ::
  "env \<Rightarrow> path list \<Rightarrow> argval \<Rightarrow> config \<Rightarrow> path \<Rightarrow> unit comp" where
  "call_build_trainset E rasters vec config tmp =
     bind (emit (BuildTrainset rasters vec config tmp)) (\<lambda>_.
       case build_trainset E rasters vec config tmp of
         None \<Rightarrow> return ()
       | Some e \<Rightarrow> raise e)"

definition main :: "env \<Rightarrow> string list \<Rightarrow> unit comp" where
  "main E argv =
     bind (lift (parse_args E argv)) (\<lambda>args.
     bind (setup_logging (loglevel args)) (\<lambda>_.
     bind (read_config_file E (config_file args)) (\<lambda>config.
     bind (logger_debug ''Collect all rasters'') (\<lambda>_.
     bind (call_all_raster_files E (rasters_dir args)) (\<lambda>rasters.
     bind (validate_rasters_band_count E rasters) (\<lambda>_.
     bind (call_build_trainset E rasters (vector args) config (temp_dir args)) (\<lambda>_.
     logger_info ''Done'')))))))"

subsection \<open>Describing traces\<close>

text \<open>The events of opening and closing each raster of a list, in order.\<close>

definition opened :: "path list \<Rightarrow> event list" where
  "opened rasters = concat (map (\<lambda>p. [RasterOpen p, RasterClose p]) rasters)"

fun is_build_trainset :: "event \<Rightarrow> bool" where
  "is_build_trainset (BuildTrainset rasters vec config tmp) = True"
| "is_build_trainset ev = False"

fun is_vector_open :: "event \<Rightarrow> bool" where
  "is_vector_open (VectorOpen p) = True"
| "is_vector_open ev = False"

text \<open>A computation that only appends events, all of them satisfying \<open>P\<close>.\<close>

definition adds :: "(event \<Rightarrow> bool) \<Rightarrow> 'a comp \<Rightarrow> bool" where
  "adds P m = (\<forall>t. \<exists>evs. snd (m t) = t @ evs \<and> list_all P evs)"

subsection \<open>Example worlds\<close>

definition example_env :: env where
  "example_env =
     \<lparr>raster_count = map_of [(''a.tif'', 4), (''b.tif'', 4), (''c.tif'', 4), (''rgb.tif'', 3)],
      vector_crs = map_of [(''labels.geojson'', [(''init'', ''epsg:4326'')])],
      config_files = (\<lambda>p.
        if p = ''default.cfg''
          then Parsed \<lparr>defaults = [], sections = [(''train'', [(''epochs'', ''10'')])]\<rparr>
        else if p = ''shared.cfg''
          then Parsed \<lparr>defaults = [(''lr'', ''0.1'')],
                       sections = [(''train'', [(''epochs'', ''10'')])]\<rparr>
        else if p = ''model.cfg''
          then Parsed \<lparr>defaults = [], sections = [(''model'', [(''size'', ''256'')])]\<rparr>
        else if p = ''percent.cfg''
          then Parsed \<lparr>defaults = [], sections = [(''train'', [(''ratio'', ''50%'')])]\<rparr>
        else if p = ''headerless.cfg'' then Malformed
        else Unreadable),
      all_raster_files = (\<lambda>d.
        if d = Str ''rasters'' then Inr [''a.tif'', ''b.tif'', ''c.tif'']
        else if d = Str ''mixed'' then Inr [''a.tif'', ''rgb.tif'', ''c.tif'']
        else Inr []),
      build_trainset = (\<lambda>rasters vec config tmp. None),
      gettempdir = ''/tmp''\<rparr>"

text \<open>What \<open>parse_args\<close> returns for \<open>rasters labels.geojson\<close> in the example world.\<close>

definition example_args :: namespace where
  "example_args = \<lparr>rasters_dir = Str ''rasters'', vector = Str ''labels.geojson'',
     config_file = ''default.cfg'', output_model = ''model.h5'', seed = None,
     temp_dir = ''/tmp'', loglevel = None\<rparr>"

definition failing_builder_env :: env where
  "failing_builder_env =
     example_env\<lparr>build_trainset := (\<lambda>rasters vec config tmp. Some (ExternalError ''builder''))\<rparr>"

section \<open>Properties\<close>

subsection \<open>Computations\<close>

lemmas comp_defs = bind_def return_def raise_def emit_def lift_def logger_debug_def logger_info_def

lemma get_raster_band_count_four:
  "raster_count E p = Some c \<Longrightarrow>
   get_raster_band_count E p t = (Inr c, t @ [RasterOpen p, RasterClose p])"
  by (simp add: get_raster_band_count_def comp_defs)

lemma get_raster_band_count_unreadable:
  "raster_count E p = None \<Longrightarrow>
   get_raster_band_count E p t = (Inl (RasterioIOError p), t @ [RasterOpen p])"
  by (simp add: get_raster_band_count_def comp_defs)

lemma opened_Cons: "opened (p # ps) = RasterOpen p # RasterClose p # opened ps"
  by (simp add: opened_def)

lemma opened_Nil: "opened [] = []"
  by (simp add: opened_def)

lemma opened_append: "opened (ps @ qs) = opened ps @ opened qs"
  by (simp add: opened_def)

lemma validate_loop_prefix:
  "\<forall>q\<in>set pre. raster_count E q = Some 4 \<Longrightarrow>
   validate_loop E (pre @ rest) t = validate_loop E rest (t @ opened pre)"
proof (induction pre arbitrary: t)
  case Nil
  then show ?case by (simp add: opened_Nil)
next
  case (Cons q pre)
  then show ?case
    by (simp add: bind_def get_raster_band_count_four opened_Cons)
qed

lemma validate_loop_valid:
  assumes "\<forall>p\<in>set rasters. raster_count E p = Some 4"
  shows "validate_loop E rasters t = (Inr True, t @ opened rasters)"
proof -
  have "validate_loop E (rasters @ []) t = validate_loop E [] (t @ opened rasters)"
    by (rule validate_loop_prefix [OF assms])
  then show ?thesis by (simp add: return_def)
qed

lemma validate_loop_mismatch:
  assumes "raster_count E p = Some c" and "c \<noteq> 4"
      and "length (digits_of (nat \<bar>c\<bar>)) \<le> 4300"
  shows "validate_loop E (p # suf) t =
         (Inl (RuntimeError (band_count_message c)), t @ [RasterOpen p, RasterClose p])"
  using assms
  by (simp add: bind_def get_raster_band_count_four raise_def format_band_count_def)

subsection \<open>Integers as strings\<close>

lemma digit_chars:
  "list_all (\<lambda>d. digit_value (digit_char d) = int d \<and> is_digit (digit_char d)) [0..<10]"
  by code_simp

lemma digit_value_digit_char: "d < 10 \<Longrightarrow> digit_value (digit_char d) = int d"
  using digit_chars by (simp add: list_all_iff)

lemma is_digit_digit_char: "is_digit (digit_char d)"
proof -
  have "d mod 10 < 10" by simp
  then have "is_digit (digit_char (d mod 10))"
    using digit_chars by (simp add: list_all_iff)
  then show ?thesis by (simp add: digit_char_def)
qed

lemma digits_of_digits: "list_all is_digit (digits_of n) \<and> digits_of n \<noteq> []"
proof (induction n rule: digits_of.induct)
  case (1 n)
  show ?case
  proof (cases "n < 10")
    case True
    then show ?thesis
      by (subst (1 2) digits_of.simps) (simp add: is_digit_digit_char)
  next
    case False
    with 1 show ?thesis
      by (subst (1 2) digits_of.simps) (simp add: is_digit_digit_char)
  qed
qed

lemma digits_of_value:
  "foldl (\<lambda>acc x. 10 * acc + digit_value x) 0 (digits_of n) = int n"
proof (induction n rule: digits_of.induct)
  case (1 n)
  show ?case
  proof (cases "n < 10")
    case True
    then show ?thesis
      by (subst digits_of.simps) (simp add: digit_value_digit_char)
  next
    case False
    then have "foldl (\<lambda>acc x. 10 * acc + digit_value x) 0 (digits_of n) =
                 10 * int (n div 10) + int (n mod 10)"
      using 1 by (subst digits_of.simps) (simp add: digit_value_digit_char)
    also have "\<dots> = int n"
      by presburger
    finally show ?thesis .
  qed
qed

lemma underscores_ok_digits: "list_all is_digit s \<Longrightarrow> s \<noteq> [] \<Longrightarrow> underscores_ok s"
  by (induction s rule: underscores_ok.induct) simp_all

lemma is_digit_not_underscore: "is_digit c \<Longrightarrow> c \<noteq> CHR ''_''"
  by (auto simp: is_digit_def)

lemma decimal_digits_of: "decimal (digits_of n) = Some (int n)"
proof -
  from digits_of_digits [of n] obtain c cs where cs: "digits_of n = c # cs"
    by (cases "digits_of n") auto
  have all: "list_all is_digit (digits_of n)" using digits_of_digits by blast
  then have "filter (\<lambda>x. x \<noteq> CHR ''_'') (digits_of n) = digits_of n"
    by (auto simp: list_all_iff is_digit_not_underscore intro!: filter_True)
  moreover have "underscores_ok (digits_of n)"
    using digits_of_digits [of n] by (simp add: underscores_ok_digits)
  moreover have "is_digit c" using all cs by simp
  ultimately show ?thesis
    using cs digits_of_value [of n] by (simp add: decimal_def)
qed

text \<open>The decimal string of an integer reads back as that integer.\<close>

theorem signed_decimal_str_int: "signed_decimal (str_int i) = Some i"
proof -
  let ?n = "nat \<bar>i\<bar>"
  from digits_of_digits [of ?n] obtain c cs where cs: "digits_of ?n = c # cs"
    by (cases "digits_of ?n") auto
  have "list_all is_digit (digits_of ?n)" using digits_of_digits by blast
  with cs have c: "is_digit c" by simp
  show ?thesis
  proof (cases "i < 0")
    case True
    then have "str_int i = CHR ''-'' # digits_of ?n"
      by (simp add: str_int_def abs_if)
    then show ?thesis
      using True by (simp add: signed_decimal_def decimal_digits_of)
  next
    case False
    then have str: "str_int i = digits_of ?n"
      by (simp add: str_int_def abs_if)
    have "c \<noteq> CHR ''-''" "c \<noteq> CHR ''+''"
      using c by (auto simp: is_digit_def)
    then show ?thesis
      using False cs decimal_digits_of [of ?n] by (simp add: signed_decimal_def str)
  qed
qed

text \<open>So the error message determines the band count it reports.\<close>

lemma band_count_message_inj:
  assumes "band_count_message c = band_count_message c'"
  shows "c = c'"
proof -
  from assms have "str_int c = str_int c'"
    by (simp add: band_count_message_def)
  then have "signed_decimal (str_int c) = signed_decimal (str_int c')" by simp
  then show ?thesis by (simp add: signed_decimal_str_int)
qed

subsection \<open>Band-count validation on a mismatch\<close>

text \<open>
  Claim C1, as the code has it. Take the first path of the list that is not a raster of
  four bands: every path before it opens and has four bands. When that path opens and
  has a band count \<open>c\<close> other than 4 (of at most 4300 digits, the longest integer CPython
  3.11 writes), \<open>validate_rasters_band_count\<close> raises the RuntimeError with the message \<open>Rasters must have exactly 4 bands (was c)\<close>, where \<open>c\<close> is written as the
  decimal numeral that reads back as the count. The rasters before it and the raster
  itself are opened and closed, in order, and no path after it is opened. The message
  holds the count and no path.
\<close>

theorem validate_rasters_band_count_raises:
  assumes split: "rasters = pre @ p # suf"
      and pre: "\<forall>q\<in>set pre. raster_count E q = Some 4"
      and count: "raster_count E p = Some c"
      and mismatch: "c \<noteq> 4"
      and digits: "length (digits_of (nat \<bar>c\<bar>)) \<le> 4300"
  shows "validate_rasters_band_count E rasters t =
           (Inl (RuntimeError (''Rasters must have exactly 4 bands (was '' @ str_int c @ '')'')),
            t @ [Log DEBUG ''Validate rasters band count''] @ opened (pre @ [p])) \<and>
         signed_decimal (str_int c) = Some c"
proof -
  have "validate_rasters_band_count E rasters t =
          validate_loop E (p # suf) ((t @ [Log DEBUG ''Validate rasters band count'']) @ opened pre)"
    unfolding validate_rasters_band_count_def split
    by (simp add: comp_defs validate_loop_prefix [OF pre])
  also have "\<dots> = (Inl (RuntimeError (band_count_message c)),
              t @ [Log DEBUG ''Validate rasters band count''] @ opened (pre @ [p]))"
    by (simp add: validate_loop_mismatch [OF count mismatch digits]
          opened_append opened_Cons opened_Nil del: validate_loop.simps)
  finally have "validate_rasters_band_count E rasters t =
           (Inl (RuntimeError (''Rasters must have exactly 4 bands (was '' @ str_int c @ '')'')),
            t @ [Log DEBUG ''Validate rasters band count''] @ opened (pre @ [p]))"
    by (simp add: band_count_message_def)
  then show ?thesis
    by (simp add: signed_decimal_str_int)
qed

lemma str_int_3: "str_int 3 = ''3''"
  by (simp add: str_int_def digits_of.simps digit_char_def)

lemma band_count_message_3: "band_count_message 3 = ''Rasters must have exactly 4 bands (was 3)''"
  by (simp add: band_count_message_def str_int_3)

text \<open>The second of three paths is a raster of three bands and the third path does not
  open: the error reports 3, and the third path is never opened.\<close>

theorem validate_rasters_band_count_raises_witness:
  "raster_count example_env ''a.tif'' = Some 4 \<and>
   raster_count example_env ''rgb.tif'' = Some 3 \<and>
   raster_count example_env ''broken.tif'' = None \<and>
   validate_rasters_band_count example_env [''a.tif'', ''rgb.tif'', ''broken.tif''] [] =
     (Inl (RuntimeError ''Rasters must have exactly 4 bands (was 3)''),
      [Log DEBUG ''Validate rasters band count'', RasterOpen ''a.tif'', RasterClose ''a.tif'',
       RasterOpen ''rgb.tif'', RasterClose ''rgb.tif'']) \<and>
   signed_decimal ''3'' = Some 3"
proof -
  have split: "[''a.tif'', ''rgb.tif'', ''broken.tif''] = [''a.tif''] @ ''rgb.tif'' # [''broken.tif'']"
    by simp
  have pre: "\<forall>q\<in>set [''a.tif'']. raster_count example_env q = Some 4"
    by (simp add: example_env_def)
  have count: "raster_count example_env ''rgb.tif'' = Some 3"
    by (simp add: example_env_def)
  have mismatch: "(3::int) \<noteq> 4" by simp
  have digits: "length (digits_of (nat \<bar>3::int\<bar>)) \<le> 4300"
    by (simp add: digits_of.simps)
  have broken: "raster_count example_env ''broken.tif'' = None"
    by (simp add: example_env_def)
  show ?thesis
    using validate_rasters_band_count_raises [OF split pre count mismatch digits, of "[]"]
      pre count broken
    by (simp add: opened_def str_int_3)
qed

text \<open>
  Claim C1 as stated fails: a list can hold a raster of three bands and still not raise
  the band-count error. When a path before that raster does not open, the exception of
  \<open>rasterio.open\<close> ends the call first, and it mentions no band count.
\<close>

theorem validate_rasters_band_count_unopenable_first:
  "raster_count example_env ''broken.tif'' = None \<and>
   raster_count example_env ''rgb.tif'' = Some 3 \<and>
   validate_rasters_band_count example_env [''broken.tif'', ''rgb.tif''] [] =
     (Inl (RasterioIOError ''broken.tif''),
      [Log DEBUG ''Validate rasters band count'', RasterOpen ''broken.tif''])"
proof -
  have broken: "raster_count example_env ''broken.tif'' = None"
    and rgb: "raster_count example_env ''rgb.tif'' = Some 3"
    by (simp_all add: example_env_def)
  show ?thesis
    using broken rgb
    by (simp add: validate_rasters_band_count_def comp_defs
          get_raster_band_count_unreadable [OF broken])
qed

subsection \<open>Band-count validation on valid rasters\<close>

text \<open>
  Claim C3, as the code has it. When every raster of the list (the empty list too) opens
  and has four bands, \<open>validate_rasters_band_count\<close> returns True. What it does on the
  way: it hands one DEBUG record to the logger, then opens and closes each raster, in
  order. Nothing else happens.
\<close>

theorem validate_rasters_band_count_valid:
  assumes "\<forall>p\<in>set rasters. raster_count E p = Some 4"
  shows "validate_rasters_band_count E rasters t =
           (Inr True, t @ [Log DEBUG ''Validate rasters band count''] @ opened rasters)"
proof -
  have "validate_rasters_band_count E rasters t =
          validate_loop E rasters (t @ [Log DEBUG ''Validate rasters band count''])"
    by (simp add: validate_rasters_band_count_def comp_defs)
  also have "\<dots> = (Inr True, (t @ [Log DEBUG ''Validate rasters band count'']) @ opened rasters)"
    by (rule validate_loop_valid [OF assms])
  finally show ?thesis by simp
qed

text \<open>Three rasters of four bands each.\<close>

theorem validate_rasters_band_count_valid_witness:
  "list_all (\<lambda>p. raster_count example_env p = Some 4) [''a.tif'', ''b.tif'', ''c.tif''] \<and>
   validate_rasters_band_count example_env [''a.tif'', ''b.tif'', ''c.tif''] [] =
     (Inr True,
      [Log DEBUG ''Validate rasters band count'', RasterOpen ''a.tif'', RasterClose ''a.tif'',
       RasterOpen ''b.tif'', RasterClose ''b.tif'', RasterOpen ''c.tif'', RasterClose ''c.tif''])"
proof -
  have h: "\<forall>p\<in>set [''a.tif'', ''b.tif'', ''c.tif'']. raster_count example_env p = Some 4"
    by (simp add: example_env_def)
  show ?thesis
    using h validate_rasters_band_count_valid [OF h, of "[]"]
    by (simp add: opened_def)
qed

text \<open>
  Claim C3 as stated fails: the call is not free of effects. With logging configured at
  DEBUG, as \<open>-vv\<close> does, validating the empty list writes a record to stdout.
\<close>

theorem validate_rasters_band_count_writes_log:
  "validate_rasters_band_count example_env [] [BasicConfig (Some DEBUG)] \<noteq>
     (Inr True, [BasicConfig (Some DEBUG)]) \<and>
   stdout_records [BasicConfig (Some DEBUG)] = [] \<and>
   stdout_records (snd (validate_rasters_band_count example_env [] [BasicConfig (Some DEBUG)])) =
     [(DEBUG, ''Validate rasters band count'')]"
  by (simp add: validate_rasters_band_count_def comp_defs)

subsection \<open>Configuration file\<close>

lemma read_config_file_parsed:
  "config_files E f = Parsed cfg \<Longrightarrow>
   read_config_file E f t =
     (train_dict cfg, t @ [Log DEBUG ''read config file'', ConfigRead f])"
  by (simp add: read_config_file_def config_read_def comp_defs split: sum.splits)

lemma read_config_file_unreadable:
  "config_files E f = Unreadable \<Longrightarrow>
   read_config_file E f t =
     (Inl (KeyError ''train''), t @ [Log DEBUG ''read config file'', ConfigRead f])"
  by (simp add: read_config_file_def config_read_def comp_defs train_dict_def)

lemma interpolate_some_plain:
  "CHR ''%'' \<notin> set s \<Longrightarrow> interpolate_some (Suc d) m s = Inr s"
  by (induction s) auto

lemma interpolate_plain_value:
  assumes "CHR ''%'' \<notin> set s"
  shows "interpolate_some 10 m s = Inr s"
proof -
  have "(10::nat) = Suc 9" by simp
  then show ?thesis
    using interpolate_some_plain [OF assms, of 9 m] by (simp only:)
qed




text \<open>
  Claim C6, as the code has it. For a configuration file that \<open>configparser\<close> parses and
  that has no section named \<open>train\<close>,
  \<open>read_config_file\<close> raises \<open>KeyError('train')\<close>: the call ends in that exception, after the
  log record and the read.
\<close>

theorem read_config_file_no_train_section:
  assumes "config_files E f = Parsed cfg"
      and "''train'' \<notin> set (map fst (sections cfg))"
  shows "read_config_file E f t =
           (Inl (KeyError ''train''), t @ [Log DEBUG ''read config file'', ConfigRead f])"
proof -
  from assms(2) have "map_of (sections cfg) ''train'' = None"
    by (simp add: map_of_eq_None_iff)
  then show ?thesis
    by (simp add: read_config_file_parsed [OF assms(1)] train_dict_def)
qed

text \<open>The file \<open>model.cfg\<close> of the example world has a \<open>[model]\<close> section only.\<close>

theorem read_config_file_no_train_section_witness:
  "read_config_file example_env ''model.cfg'' [] =
     (Inl (KeyError ''train''), [Log DEBUG ''read config file'', ConfigRead ''model.cfg''])"
proof -
  have cf: "config_files example_env ''model.cfg'' =
              Parsed \<lparr>defaults = [], sections = [(''model'', [(''size'', ''256'')])]\<rparr>"
    by (simp add: example_env_def)
  show ?thesis
    using read_config_file_no_train_section [OF cf, of "[]"] by simp
qed

text \<open>
  Claim C6 as stated fails: a file can lack a \<open>[train]\<close> section and make \<open>read_config_file\<close>
  raise another error. A file that \<open>configparser\<close> rejects, such as one whose first line
  is an option with no section header before it, ends the call in the parser's error.
\<close>

theorem read_config_file_malformed:
  "config_files example_env ''headerless.cfg'' = Malformed \<and>
   read_config_file example_env ''headerless.cfg'' [] =
     (Inl (ConfigParsingError ''headerless.cfg''),
      [Log DEBUG ''read config file'', ConfigRead ''headerless.cfg'']) \<and>
   fst (read_config_file example_env ''headerless.cfg'' []) \<noteq> Inl (KeyError ''train'')"
proof -
  have m: "config_files example_env ''headerless.cfg'' = Malformed"
    by (simp add: example_env_def)
  show ?thesis
    using m by (simp add: read_config_file_def config_read_def comp_defs)
qed



subsection \<open>Command line\<close>

lemma parse_optional_positional:
  "take 1 s \<noteq> ''-'' \<Longrightarrow> s \<noteq> ''--'' \<and> parse_optional s = Inr A"
  by (cases s) (auto simp: parse_optional_def)

lemma parse_optional_seed: "parse_optional ''--seed'' = Inr (Opt (Some Seed) ''--seed'' None)"
  by (simp add: parse_optional_def option_string_actions_def)

lemma parse_optional_verbose:
  "parse_optional ''--verbose'' = Inr (Opt (Some Verbose) ''--verbose'' None)"
  by (simp add: parse_optional_def option_string_actions_def)

lemma parse_optional_very_verbose:
  "parse_optional ''--very-verbose'' = Inr (Opt (Some VeryVerbose) ''--very-verbose'' None)"
  by (simp add: parse_optional_def option_string_actions_def)

lemma parse_optional_42: "parse_optional ''42'' = Inr A"
  by (simp add: parse_optional_def)

lemma py_int_42: "py_int ''42'' = Some 42"
  by (simp add: py_int_def signed_decimal_def strip_def is_space_def decimal_def is_digit_def
        digit_value_def)

text \<open>
  Claim C7. With two positional arguments (strings that do not start with a dash)
  followed by \<open>--seed 42 --verbose\<close>, \<open>parse_args\<close> returns a namespace whose seed is the
  integer 42 and whose loglevel is \<open>logging.INFO\<close>; with \<open>--very-verbose\<close> in place of
  \<open>--verbose\<close> the loglevel is \<open>logging.DEBUG\<close>; with neither flag it is None. The other
  attributes have their defaults.
\<close>

theorem parse_args_seed_and_verbosity:
  assumes "take 1 rd \<noteq> ''-''" and "take 1 vec \<noteq> ''-''"
  shows "parse_args E [rd, vec, ''--seed'', ''42'', ''--verbose''] =
           Inr \<lparr>rasters_dir = Str rd, vector = Str vec, config_file = ''default.cfg'',
                output_model = ''model.h5'', seed = Some 42,
                temp_dir = gettempdir E, loglevel = Some INFO\<rparr> \<and>
         parse_args E [rd, vec, ''--seed'', ''42'', ''--very-verbose''] =
           Inr \<lparr>rasters_dir = Str rd, vector = Str vec, config_file = ''default.cfg'',
                output_model = ''model.h5'', seed = Some 42,
                temp_dir = gettempdir E, loglevel = Some DEBUG\<rparr> \<and>
         parse_args E [rd, vec, ''--seed'', ''42''] =
           Inr \<lparr>rasters_dir = Str rd, vector = Str vec, config_file = ''default.cfg'',
                output_model = ''model.h5'', seed = Some 42,
                temp_dir = gettempdir E, loglevel = None\<rparr>"
proof -
  note pos = parse_optional_positional [OF assms(1)] parse_optional_positional [OF assms(2)]
  have c1: "classify [rd, vec, ''--seed'', ''42'', ''--verbose''] =
      Inr [(rd, A), (vec, A), (''--seed'', Opt (Some Seed) ''--seed'' None), (''42'', A),
           (''--verbose'', Opt (Some Verbose) ''--verbose'' None)]"
    using pos by (simp add: parse_optional_seed parse_optional_verbose parse_optional_42)
  have c2: "classify [rd, vec, ''--seed'', ''42'', ''--very-verbose''] =
      Inr [(rd, A), (vec, A), (''--seed'', Opt (Some Seed) ''--seed'' None), (''42'', A),
           (''--very-verbose'', Opt (Some VeryVerbose) ''--very-verbose'' None)]"
    using pos by (simp add: parse_optional_seed parse_optional_very_verbose parse_optional_42)
  have c3: "classify [rd, vec, ''--seed'', ''42''] =
      Inr [(rd, A), (vec, A), (''--seed'', Opt (Some Seed) ''--seed'' None), (''42'', A)]"
    using pos by (simp add: parse_optional_seed parse_optional_42)
  show ?thesis
    unfolding parse_args_def c1 c2 c3
    by (simp add: assign_positional_def is_option_def py_int_42 finish_def initial_pstate_def)
qed

text \<open>The levels are the numbers 20 and 10 of \<open>logging\<close>.\<close>

theorem parse_args_seed_and_verbosity_witness:
  "parse_args example_env [''rasters'', ''labels.geojson'', ''--seed'', ''42'', ''--verbose''] =
     Inr \<lparr>rasters_dir = Str ''rasters'', vector = Str ''labels.geojson'',
          config_file = ''default.cfg'', output_model = ''model.h5'',
          seed = Some 42, temp_dir = ''/tmp'', loglevel = Some 20\<rparr> \<and>
   parse_args example_env [''rasters'', ''labels.geojson'', ''--seed'', ''42'', ''--very-verbose''] =
     Inr \<lparr>rasters_dir = Str ''rasters'', vector = Str ''labels.geojson'',
          config_file = ''default.cfg'', output_model = ''model.h5'',
          seed = Some 42, temp_dir = ''/tmp'', loglevel = Some 10\<rparr> \<and>
   parse_args example_env [''rasters'', ''labels.geojson'', ''--seed'', ''42''] =
     Inr \<lparr>rasters_dir = Str ''rasters'', vector = Str ''labels.geojson'',
          config_file = ''default.cfg'', output_model = ''model.h5'',
          seed = Some 42, temp_dir = ''/tmp'', loglevel = None\<rparr>"
proof -
  have h1: "take 1 ''rasters'' \<noteq> ''-''" by simp
  have h2: "take 1 ''labels.geojson'' \<noteq> ''-''" by simp
  have tmp: "gettempdir example_env = ''/tmp''" by (simp add: example_env_def)
  show ?thesis
    using parse_args_seed_and_verbosity [OF h1 h2, of example_env]
    by (simp add: tmp INFO_def DEBUG_def)
qed


text \<open>The same options before the positional arguments give the same namespace.\<close>

lemma parse_args_options_first:
  assumes "take 1 rd \<noteq> ''-''" and "take 1 vec \<noteq> ''-''"
  shows "parse_args E [''--seed'', ''42'', ''--verbose'', rd, vec] =
           Inr \<lparr>rasters_dir = Str rd, vector = Str vec, config_file = ''default.cfg'',
                output_model = ''model.h5'', seed = Some 42,
                temp_dir = gettempdir E, loglevel = Some INFO\<rparr>"
proof -
  note pos = parse_optional_positional [OF assms(1)] parse_optional_positional [OF assms(2)]
  have "classify [''--seed'', ''42'', ''--verbose'', rd, vec] =
      Inr [(''--seed'', Opt (Some Seed) ''--seed'' None), (''42'', A),
           (''--verbose'', Opt (Some Verbose) ''--verbose'' None), (rd, A), (vec, A)]"
    using pos by (simp add: parse_optional_seed parse_optional_verbose parse_optional_42)
  then show ?thesis
    unfolding parse_args_def using pos
    by (simp add: assign_positional_def is_option_def is_dash_def get_value_def py_int_42
          finish_def initial_pstate_def)
qed

subsection \<open>The entry point\<close>

lemma read_config_file_events:
  "\<exists>r. read_config_file E cf t = (r, t @ [Log DEBUG ''read config file'', ConfigRead cf])"
  by (auto simp: read_config_file_def config_read_def comp_defs split: cfg_file.splits sum.splits)

lemma validate_loop_fails:
  "\<exists>p\<in>set rasters. raster_count E p \<noteq> Some 4 \<Longrightarrow>
   \<exists>e evs. validate_loop E rasters t = (Inl e, t @ evs) \<and> filter is_build_trainset evs = []"
proof (induction rasters arbitrary: t)
  case Nil
  then show ?case by simp
next
  case (Cons p ps)
  show ?case
  proof (cases "raster_count E p")
    case None
    then show ?thesis
      by (simp add: bind_def get_raster_band_count_unreadable)
  next
    case (Some c)
    show ?thesis
    proof (cases "c = 4")
      case False
      with Some show ?thesis
        by (simp add: bind_def raise_def get_raster_band_count_four split: sum.splits)
    next
      case True
      with Some Cons.prems have "\<exists>q\<in>set ps. raster_count E q \<noteq> Some 4" by auto
      from Cons.IH [OF this, of "t @ [RasterOpen p, RasterClose p]"]
      obtain e evs where
        "validate_loop E ps (t @ [RasterOpen p, RasterClose p]) =
           (Inl e, (t @ [RasterOpen p, RasterClose p]) @ evs)"
        and "filter is_build_trainset evs = []"
        by blast
      then have "validate_loop E (p # ps) t = (Inl e, t @ ([RasterOpen p, RasterClose p] @ evs))
                 \<and> filter is_build_trainset ([RasterOpen p, RasterClose p] @ evs) = []"
        using Some True by (simp add: bind_def get_raster_band_count_four)
      then show ?thesis by blast
    qed
  qed
qed

lemma validate_fails:
  assumes "\<exists>p\<in>set rasters. raster_count E p \<noteq> Some 4"
  shows "\<exists>e evs. validate_rasters_band_count E rasters t = (Inl e, t @ evs) \<and>
                  filter is_build_trainset evs = []"
proof -
  from validate_loop_fails [OF assms, of "t @ [Log DEBUG ''Validate rasters band count'']"]
  obtain e evs where
    "validate_loop E rasters (t @ [Log DEBUG ''Validate rasters band count'']) =
       (Inl e, (t @ [Log DEBUG ''Validate rasters band count'']) @ evs)"
    and "filter is_build_trainset evs = []"
    by blast
  then have "validate_rasters_band_count E rasters t =
               (Inl e, t @ (Log DEBUG ''Validate rasters band count'' # evs)) \<and>
             filter is_build_trainset (Log DEBUG ''Validate rasters band count'' # evs) = []"
    by (simp add: validate_rasters_band_count_def comp_defs)
  then show ?thesis by blast
qed

lemma main_run:
  assumes parse: "parse_args E argv = Inr args"
      and cf: "config_files E (config_file args) = Parsed cfg" "train_dict cfg = Inr config"
      and rasters: "all_raster_files E (rasters_dir args) = Inr rasters"
      and four: "\<forall>p\<in>set rasters. raster_count E p = Some 4"
  shows "main E argv t =
           (case build_trainset E rasters (vector args) config (temp_dir args) of
              None \<Rightarrow>
                (Inr (),
                 t @ [BasicConfig (loglevel args), Log DEBUG ''read config file'', ConfigRead (config_file args),
                      Log DEBUG ''Collect all rasters'', AllRasterFiles (rasters_dir args),
                      Log DEBUG ''Validate rasters band count''] @ opened rasters @
                     [BuildTrainset rasters (vector args) config (temp_dir args),
                      Log INFO ''Done''])
            | Some e \<Rightarrow>
                (Inl e,
                 t @ [BasicConfig (loglevel args), Log DEBUG ''read config file'', ConfigRead (config_file args),
                      Log DEBUG ''Collect all rasters'', AllRasterFiles (rasters_dir args),
                      Log DEBUG ''Validate rasters band count''] @ opened rasters @
                     [BuildTrainset rasters (vector args) config (temp_dir args)]))"
  using parse cf(2) rasters
  by (simp add: main_def setup_logging_def call_all_raster_files_def call_build_trainset_def
        read_config_file_parsed [OF cf(1)] validate_rasters_band_count_def
        validate_loop_valid [OF four] comp_defs split: option.splits)

lemma parse_args_positionals:
  assumes "take 1 rd \<noteq> ''-''" and "take 1 vec \<noteq> ''-''"
  shows "parse_args E [rd, vec] =
           Inr \<lparr>rasters_dir = Str rd, vector = Str vec, config_file = ''default.cfg'',
                output_model = ''model.h5'', seed = None,
                temp_dir = gettempdir E, loglevel = None\<rparr>"
proof -
  note pos = parse_optional_positional [OF assms(1)] parse_optional_positional [OF assms(2)]
  have c: "classify [rd, vec] = Inr [(rd, A), (vec, A)]"
    using pos by simp
  show ?thesis
    unfolding parse_args_def c using pos
    by (simp add: assign_positional_def is_option_def is_dash_def get_value_def finish_def
          initial_pstate_def)
qed

lemma parse_example: "parse_args example_env [''rasters'', ''labels.geojson''] = Inr example_args"
  by (simp add: parse_args_positionals example_args_def example_env_def)

lemma parse_mixed:
  "parse_args example_env [''mixed'', ''labels.geojson''] = Inr (example_args\<lparr>rasters_dir := Str ''mixed''\<rparr>)"
  by (simp add: parse_args_positionals example_args_def example_env_def)

lemma example_config:
  "config_files example_env (config_file example_args) =
     Parsed \<lparr>defaults = [], sections = [(''train'', [(''epochs'', ''10'')])]\<rparr>"
  by (simp add: example_env_def example_args_def)

lemma example_train_dict:
  "train_dict \<lparr>defaults = [], sections = [(''train'', [(''epochs'', ''10'')])]\<rparr> =
     Inr [(''epochs'', ''10'')]"
  by (simp add: train_dict_def section_dict_def interpolate_plain_value)

lemma example_rasters:
  "all_raster_files example_env (rasters_dir example_args) = Inr [''a.tif'', ''b.tif'', ''c.tif'']"
  by (simp add: example_env_def example_args_def)

lemma example_four:
  "\<forall>p\<in>set [''a.tif'', ''b.tif'', ''c.tif'']. raster_count example_env p = Some 4"
  by (simp add: example_env_def)

text \<open>The run of the example world on the directory \<open>mixed\<close>, whose second raster has three
  bands.\<close>

lemma main_mixed_run:
  "main example_env [''mixed'', ''labels.geojson''] [] =
     (Inl (RuntimeError ''Rasters must have exactly 4 bands (was 3)''),
      [BasicConfig None, Log DEBUG ''read config file'', ConfigRead ''default.cfg'',
       Log DEBUG ''Collect all rasters'', AllRasterFiles (Str ''mixed''),
       Log DEBUG ''Validate rasters band count'',
       RasterOpen ''a.tif'', RasterClose ''a.tif'', RasterOpen ''rgb.tif'', RasterClose ''rgb.tif''])"
proof -
  have cf: "config_files example_env ''default.cfg'' =
     Parsed \<lparr>defaults = [], sections = [(''train'', [(''epochs'', ''10'')])]\<rparr>"
    by (simp add: example_env_def)
  have rasters: "all_raster_files example_env (Str ''mixed'') = Inr [''a.tif'', ''rgb.tif'', ''c.tif'']"
    by (simp add: example_env_def)
  have a: "raster_count example_env ''a.tif'' = Some 4"
    and rgb: "raster_count example_env ''rgb.tif'' = Some 3"
    by (simp_all add: example_env_def)
  have v: "validate_rasters_band_count example_env [''a.tif'', ''rgb.tif'', ''c.tif''] t =
          (Inl (RuntimeError ''Rasters must have exactly 4 bands (was 3)''),
           t @ [Log DEBUG ''Validate rasters band count'',
                RasterOpen ''a.tif'', RasterClose ''a.tif'', RasterOpen ''rgb.tif'', RasterClose ''rgb.tif''])"
    for t
    by (simp add: validate_rasters_band_count_def comp_defs get_raster_band_count_four [OF a]
          get_raster_band_count_four [OF rgb] format_band_count_def band_count_message_3
          digits_of.simps)
  show ?thesis
    by (simp add: main_def parse_mixed setup_logging_def example_args_def comp_defs
          read_config_file_parsed [OF cf] example_train_dict call_all_raster_files_def rasters v)
qed

text \<open>
  Claim C2. In every run of \<open>main\<close> that parses its arguments and whose enumerated rasters
  include one that does not report four bands, \<open>main\<close> ends in an exception and the
  events of the run contain no call of \<open>build_trainset\<close>.
\<close>

theorem main_aborts_before_build_trainset:
  assumes parse: "parse_args E argv = Inr args"
      and rasters: "all_raster_files E (rasters_dir args) = Inr rasters"
      and mismatch: "\<exists>p\<in>set rasters. raster_count E p \<noteq> Some 4"
  shows "\<exists>e evs. main E argv t = (Inl e, t @ evs) \<and> filter is_build_trainset evs = []"
proof -
  let ?t1 = "t @ [BasicConfig (loglevel args)]"
  let ?cfg = "[Log DEBUG ''read config file'', ConfigRead (config_file args)]"
  from read_config_file_events [of E "config_file args" ?t1]
  obtain r where r: "read_config_file E (config_file args) ?t1 = (r, ?t1 @ ?cfg)"
    by blast
  have cfg: "filter is_build_trainset ?cfg = []"
    by simp
  show ?thesis
  proof (cases r)
    case (Inl e)
    with r parse have "main E argv t = (Inl e, t @ (BasicConfig (loglevel args) # ?cfg))"
      by (simp add: main_def setup_logging_def comp_defs)
    moreover have "filter is_build_trainset (BasicConfig (loglevel args) # ?cfg) = []"
      using cfg by simp
    ultimately show ?thesis by blast
  next
    case (Inr config)
    let ?t2 = "?t1 @ ?cfg @ [Log DEBUG ''Collect all rasters'', AllRasterFiles (rasters_dir args)]"
    from validate_fails [OF mismatch, of ?t2]
    obtain e evs where v: "validate_rasters_band_count E rasters ?t2 = (Inl e, ?t2 @ evs)"
      and evs: "filter is_build_trainset evs = []"
      by blast
    have "main E argv t =
            (Inl e, t @ (BasicConfig (loglevel args) # ?cfg @
                         [Log DEBUG ''Collect all rasters'', AllRasterFiles (rasters_dir args)] @ evs))"
      using r Inr parse rasters v
      by (simp add: main_def setup_logging_def call_all_raster_files_def comp_defs)
    moreover have "filter is_build_trainset (BasicConfig (loglevel args) # ?cfg @
                         [Log DEBUG ''Collect all rasters'', AllRasterFiles (rasters_dir args)] @ evs) = []"
      using cfg evs by simp
    ultimately show ?thesis by blast
  qed
qed

text \<open>The directory \<open>mixed\<close> of the example world holds a raster of three bands.\<close>

theorem main_aborts_before_build_trainset_witness:
  "parse_args example_env [''mixed'', ''labels.geojson''] =
     Inr (example_args\<lparr>rasters_dir := Str ''mixed''\<rparr>) \<and>
   all_raster_files example_env (Str ''mixed'') = Inr [''a.tif'', ''rgb.tif'', ''c.tif''] \<and>
   raster_count example_env ''rgb.tif'' = Some 3 \<and>
   (\<exists>e evs. main example_env [''mixed'', ''labels.geojson''] [] = (Inl e, [] @ evs) \<and>
             filter is_build_trainset evs = []) \<and>
   fst (main example_env [''mixed'', ''labels.geojson''] []) =
     Inl (RuntimeError ''Rasters must have exactly 4 bands (was 3)'')"
proof -
  have rasters: "all_raster_files example_env (rasters_dir (example_args\<lparr>rasters_dir := Str ''mixed''\<rparr>)) =
                   Inr [''a.tif'', ''rgb.tif'', ''c.tif'']"
    by (simp add: example_env_def)
  have mismatch: "\<exists>p\<in>set [''a.tif'', ''rgb.tif'', ''c.tif'']. raster_count example_env p \<noteq> Some 4"
    by (simp add: example_env_def)
  have three: "raster_count example_env ''rgb.tif'' = Some 3"
    by (simp add: example_env_def)
  show ?thesis
    using main_aborts_before_build_trainset [OF parse_mixed rasters mismatch, of "[]"]
      parse_mixed rasters three main_mixed_run
    by simp
qed

text \<open>
  Claim C4, as the code has it. In every run of \<open>main\<close> whose arguments parse, whose
  configuration file is read into a dictionary (it has a \<open>[train]\<close> section and its values
  interpolate), and whose enumerated rasters all have four bands, the events of the run
  are exactly these: logging is configured, the configuration is read, the rasters are
  enumerated, each raster is opened and closed, and then \<open>build_trainset\<close> is called, once,
  with the enumerated raster list, the vector argument, that dictionary and the
  temporary directory. When the builder returns, \<open>main\<close> logs \<open>Done\<close> at INFO level next and
  returns; when the builder raises, \<open>main\<close> ends in that exception, the call is its last
  event and \<open>Done\<close> is not logged.
\<close>

theorem main_builds_trainset_once:
  assumes parse: "parse_args E argv = Inr args"
      and cf: "config_files E (config_file args) = Parsed cfg" "train_dict cfg = Inr config"
      and rasters: "all_raster_files E (rasters_dir args) = Inr rasters"
      and four: "\<forall>p\<in>set rasters. raster_count E p = Some 4"
  shows "main E argv t =
           (case build_trainset E rasters (vector args) config (temp_dir args) of
              None \<Rightarrow>
                (Inr (),
                 t @ [BasicConfig (loglevel args), Log DEBUG ''read config file'',
                      ConfigRead (config_file args), Log DEBUG ''Collect all rasters'',
                      AllRasterFiles (rasters_dir args),
                      Log DEBUG ''Validate rasters band count''] @ opened rasters @
                     [BuildTrainset rasters (vector args) config (temp_dir args),
                      Log INFO ''Done''])
            | Some e \<Rightarrow>
                (Inl e,
                 t @ [BasicConfig (loglevel args), Log DEBUG ''read config file'',
                      ConfigRead (config_file args), Log DEBUG ''Collect all rasters'',
                      AllRasterFiles (rasters_dir args),
                      Log DEBUG ''Validate rasters band count''] @ opened rasters @
                     [BuildTrainset rasters (vector args) config (temp_dir args)]))"
proof -
  have config: "read_config_file E (config_file args) t1 =
                  (Inr config, t1 @ [Log DEBUG ''read config file'', ConfigRead (config_file args)])"
    for t1
    using cf(2) by (simp add: read_config_file_parsed [OF cf(1)])
  have valid: "validate_rasters_band_count E rasters t2 =
                 (Inr True, t2 @ Log DEBUG ''Validate rasters band count'' # opened rasters)"
    for t2
    by (simp add: validate_rasters_band_count_def comp_defs validate_loop_valid [OF four])
  show ?thesis
    using parse rasters
    by (simp add: main_def setup_logging_def call_all_raster_files_def call_build_trainset_def
          config valid comp_defs split: option.splits)
qed

text \<open>Three rasters of four bands, the default configuration file, a builder that returns.\<close>

theorem main_builds_trainset_once_witness:
  "main example_env [''rasters'', ''labels.geojson''] [] =
     (Inr (),
      [BasicConfig None, Log DEBUG ''read config file'', ConfigRead ''default.cfg'',
       Log DEBUG ''Collect all rasters'', AllRasterFiles (Str ''rasters''),
       Log DEBUG ''Validate rasters band count'',
       RasterOpen ''a.tif'', RasterClose ''a.tif'', RasterOpen ''b.tif'', RasterClose ''b.tif'',
       RasterOpen ''c.tif'', RasterClose ''c.tif'',
       BuildTrainset [''a.tif'', ''b.tif'', ''c.tif''] (Str ''labels.geojson'')
         [(''epochs'', ''10'')] ''/tmp'',
       Log INFO ''Done''])"
proof -
  have b: "build_trainset example_env [''a.tif'', ''b.tif'', ''c.tif''] (vector example_args)
             [(''epochs'', ''10'')] (temp_dir example_args) = None"
    by (simp add: example_env_def)
  show ?thesis
    using main_builds_trainset_once
      [OF parse_example example_config example_train_dict example_rasters example_four, of "[]"] b
    by (simp add: example_args_def opened_def)
qed

text \<open>
  Claim C4 as stated fails: with the same rasters and configuration and a builder that
  raises, \<open>build_trainset\<close> is called once and \<open>Done\<close> is never logged.
\<close>

theorem main_builder_failure_skips_done:
  "all_raster_files failing_builder_env (Str ''rasters'') = Inr [''a.tif'', ''b.tif'', ''c.tif''] \<and>
   list_all (\<lambda>p. raster_count failing_builder_env p = Some 4) [''a.tif'', ''b.tif'', ''c.tif''] \<and>
   config_files failing_builder_env ''default.cfg'' =
     Parsed \<lparr>defaults = [], sections = [(''train'', [(''epochs'', ''10'')])]\<rparr> \<and>
   main failing_builder_env [''rasters'', ''labels.geojson''] [] =
     (Inl (ExternalError ''builder''),
      [BasicConfig None, Log DEBUG ''read config file'', ConfigRead ''default.cfg'',
       Log DEBUG ''Collect all rasters'', AllRasterFiles (Str ''rasters''),
       Log DEBUG ''Validate rasters band count'',
       RasterOpen ''a.tif'', RasterClose ''a.tif'', RasterOpen ''b.tif'', RasterClose ''b.tif'',
       RasterOpen ''c.tif'', RasterClose ''c.tif'',
       BuildTrainset [''a.tif'', ''b.tif'', ''c.tif''] (Str ''labels.geojson'')
         [(''epochs'', ''10'')] ''/tmp'']) \<and>
   Log INFO ''Done'' \<notin> set (snd (main failing_builder_env [''rasters'', ''labels.geojson''] []))"
proof -
  have parse: "parse_args failing_builder_env [''rasters'', ''labels.geojson''] = Inr example_args"
    by (simp add: parse_args_positionals example_args_def failing_builder_env_def example_env_def)
  have cf: "config_files failing_builder_env (config_file example_args) =
     Parsed \<lparr>defaults = [], sections = [(''train'', [(''epochs'', ''10'')])]\<rparr>"
    by (simp add: failing_builder_env_def example_env_def example_args_def)
  have rasters: "all_raster_files failing_builder_env (rasters_dir example_args) =
                   Inr [''a.tif'', ''b.tif'', ''c.tif'']"
    by (simp add: failing_builder_env_def example_env_def example_args_def)
  have four: "\<forall>p\<in>set [''a.tif'', ''b.tif'', ''c.tif'']. raster_count failing_builder_env p = Some 4"
    by (simp add: failing_builder_env_def example_env_def)
  have b: "build_trainset failing_builder_env [''a.tif'', ''b.tif'', ''c.tif''] (vector example_args)
             [(''epochs'', ''10'')] (temp_dir example_args) = Some (ExternalError ''builder'')"
    by (simp add: failing_builder_env_def)
  have run: "main failing_builder_env [''rasters'', ''labels.geojson''] [] =
     (Inl (ExternalError ''builder''),
      [BasicConfig None, Log DEBUG ''read config file'', ConfigRead ''default.cfg'',
       Log DEBUG ''Collect all rasters'', AllRasterFiles (Str ''rasters''),
       Log DEBUG ''Validate rasters band count'',
       RasterOpen ''a.tif'', RasterClose ''a.tif'', RasterOpen ''b.tif'', RasterClose ''b.tif'',
       RasterOpen ''c.tif'', RasterClose ''c.tif'',
       BuildTrainset [''a.tif'', ''b.tif'', ''c.tif''] (Str ''labels.geojson'')
         [(''epochs'', ''10'')] ''/tmp''])"
    using main_run [OF parse cf example_train_dict rasters four, of "[]"] b
    by (simp add: example_args_def opened_def)
  have "Log INFO ''Done'' \<notin> set (snd (main failing_builder_env [''rasters'', ''labels.geojson''] []))"
    unfolding run by (simp add: INFO_def DEBUG_def)
  then show ?thesis
    using run cf rasters four by (simp add: example_args_def)
qed

text \<open>A configuration file that is missing, or has no \<open>[train]\<close> section, ends the run
  with \<open>KeyError('train')\<close> right after the read.\<close>

lemma main_propagates_key_error:
  assumes parse: "parse_args E argv = Inr args"
      and cf: "config_files E (config_file args) = Unreadable \<or>
               (\<exists>cfg. config_files E (config_file args) = Parsed cfg \<and>
                      ''train'' \<notin> set (map fst (sections cfg)))"
  shows "main E argv t =
           (Inl (KeyError ''train''),
            t @ [BasicConfig (loglevel args), Log DEBUG ''read config file'',
                 ConfigRead (config_file args)])"
proof -
  have "read_config_file E (config_file args) t' =
          (Inl (KeyError ''train''),
           t' @ [Log DEBUG ''read config file'', ConfigRead (config_file args)])" for t'
    using cf
  proof
    assume "config_files E (config_file args) = Unreadable"
    then show ?thesis by (rule read_config_file_unreadable)
  next
    assume "\<exists>cfg. config_files E (config_file args) = Parsed cfg \<and>
                  ''train'' \<notin> set (map fst (sections cfg))"
    then obtain cfg where p: "config_files E (config_file args) = Parsed cfg"
      and "''train'' \<notin> set (map fst (sections cfg))"
      by blast
    then have "map_of (sections cfg) ''train'' = None"
      by (simp add: map_of_eq_None_iff)
    then have "train_dict cfg = Inl (KeyError ''train'')"
      by (simp add: train_dict_def)
    then show ?thesis
      by (simp add: read_config_file_parsed [OF p])
  qed
  then show ?thesis
    using parse by (simp add: main_def setup_logging_def comp_defs)
qed

text \<open>A \<open>[train]\<close> section with a value that does not interpolate (\<open>ratio = 50%\<close>) ends the
  run in \<open>read_config_file\<close>, before the rasters are enumerated.\<close>

lemma parse_args_config_option:
  assumes "take 1 rd \<noteq> ''-''" and "take 1 vec \<noteq> ''-''" and "take 1 f \<noteq> ''-''"
  shows "parse_args E [rd, vec, ''-c'', f] =
           Inr \<lparr>rasters_dir = Str rd, vector = Str vec, config_file = f,
                output_model = ''model.h5'', seed = None,
                temp_dir = gettempdir E, loglevel = None\<rparr>"
proof -
  note pos = parse_optional_positional [OF assms(1)] parse_optional_positional [OF assms(2)]
    parse_optional_positional [OF assms(3)]
  have c: "parse_optional ''-c'' = Inr (Opt (Some ConfigFile) ''-c'' None)"
    by (simp add: parse_optional_def option_string_actions_def)
  have "classify [rd, vec, ''-c'', f] =
          Inr [(rd, A), (vec, A), (''-c'', Opt (Some ConfigFile) ''-c'' None), (f, A)]"
    using pos by (simp add: c)
  then show ?thesis
    unfolding parse_args_def
    by (simp add: assign_positional_def is_option_def finish_def initial_pstate_def)
qed

lemmas interpolate_some_10 = interpolate_some.simps(2,3) [of 9, simplified]

lemma main_interpolation_error:
  "main example_env [''rasters'', ''labels.geojson'', ''-c'', ''percent.cfg''] [] =
     (Inl InterpolationSyntaxError,
      [BasicConfig None, Log DEBUG ''read config file'', ConfigRead ''percent.cfg''])"
proof -
  have parse: "parse_args example_env [''rasters'', ''labels.geojson'', ''-c'', ''percent.cfg''] =
                 Inr (example_args\<lparr>config_file := ''percent.cfg''\<rparr>)"
    by (simp add: parse_args_config_option example_args_def example_env_def)
  have cf: "config_files example_env ''percent.cfg'' =
              Parsed \<lparr>defaults = [], sections = [(''train'', [(''ratio'', ''50%'')])]\<rparr>"
    by (simp add: example_env_def)
  have "interpolate_some 10 m ''50%'' = Inl InterpolationSyntaxError" for m
    by (simp add: interpolate_some_10)
  then have "train_dict \<lparr>defaults = [], sections = [(''train'', [(''ratio'', ''50%'')])]\<rparr> =
          Inl InterpolationSyntaxError"
    by (simp add: train_dict_def section_dict_def)
  then show ?thesis
    using parse
    by (simp add: main_def setup_logging_def comp_defs read_config_file_parsed [OF cf]
          example_args_def)
qed

text \<open>
  Claim C10. On the empty list \<open>validate_rasters_band_count\<close> returns True and opens no
  raster: its only event is the log record. A run of \<open>main\<close> that parses its arguments,
  reads its configuration and enumerates no raster calls \<open>build_trainset\<close> once, with
  the empty list.
\<close>

theorem main_empty_raster_list:
  assumes parse: "parse_args E argv = Inr args"
      and cf: "config_files E (config_file args) = Parsed cfg" "train_dict cfg = Inr config"
      and rasters: "all_raster_files E (rasters_dir args) = Inr []"
  shows "validate_rasters_band_count E [] t =
           (Inr True, t @ [Log DEBUG ''Validate rasters band count'']) \<and>
         main E argv t =
           (case build_trainset E [] (vector args) config (temp_dir args) of
              None \<Rightarrow>
                (Inr (),
                 t @ [BasicConfig (loglevel args), Log DEBUG ''read config file'', ConfigRead (config_file args),
                      Log DEBUG ''Collect all rasters'', AllRasterFiles (rasters_dir args),
                      Log DEBUG ''Validate rasters band count'',
                      BuildTrainset [] (vector args) config (temp_dir args),
                      Log INFO ''Done''])
            | Some e \<Rightarrow>
                (Inl e,
                 t @ [BasicConfig (loglevel args), Log DEBUG ''read config file'', ConfigRead (config_file args),
                      Log DEBUG ''Collect all rasters'', AllRasterFiles (rasters_dir args),
                      Log DEBUG ''Validate rasters band count'',
                      BuildTrainset [] (vector args) config (temp_dir args)]))"
proof -
  have none: "\<forall>p\<in>set []. raster_count E p = Some 4" by simp
  have "validate_rasters_band_count E [] t =
           (Inr True, t @ [Log DEBUG ''Validate rasters band count''])"
    by (simp add: validate_rasters_band_count_def comp_defs)
  then show ?thesis
    using main_run [OF parse cf rasters none, of t]
    by (simp add: opened_Nil split: option.splits)
qed

text \<open>The directory \<open>empty\<close> of the example world holds no raster.\<close>

theorem main_empty_raster_list_witness:
  "all_raster_files example_env (Str ''empty'') = Inr [] \<and>
   validate_rasters_band_count example_env [] [] =
     (Inr True, [Log DEBUG ''Validate rasters band count'']) \<and>
   main example_env [''empty'', ''labels.geojson''] [] =
     (Inr (),
      [BasicConfig None, Log DEBUG ''read config file'', ConfigRead ''default.cfg'',
       Log DEBUG ''Collect all rasters'', AllRasterFiles (Str ''empty''),
       Log DEBUG ''Validate rasters band count'',
       BuildTrainset [] (Str ''labels.geojson'') [(''epochs'', ''10'')] ''/tmp'',
       Log INFO ''Done''])"
proof -
  let ?args = "example_args\<lparr>rasters_dir := Str ''empty''\<rparr>"
  have parse: "parse_args example_env [''empty'', ''labels.geojson''] = Inr ?args"
    by (simp add: parse_args_positionals example_args_def example_env_def)
  have cf: "config_files example_env (config_file ?args) =
     Parsed \<lparr>defaults = [], sections = [(''train'', [(''epochs'', ''10'')])]\<rparr>"
    by (simp add: example_env_def example_args_def)
  have rasters: "all_raster_files example_env (rasters_dir ?args) = Inr []"
    by (simp add: example_env_def)
  have b: "build_trainset example_env [] (vector ?args) [(''epochs'', ''10'')] (temp_dir ?args) = None"
    by (simp add: example_env_def)
  show ?thesis
    using main_empty_raster_list [OF parse cf example_train_dict rasters, of "[]"]
      rasters b
    by (simp add: example_args_def)
qed

subsection \<open>The vector file\<close>

lemma adds_return: "adds P (return x)"
  by (simp add: adds_def return_def)

lemma adds_raise: "adds P (raise e)"
  by (simp add: adds_def raise_def)

lemma adds_lift: "adds P (lift r)"
  by (cases r) (simp_all add: lift_def adds_return adds_raise)

lemma adds_emit: "P ev \<Longrightarrow> adds P (emit ev)"
  by (simp add: adds_def emit_def)

lemma adds_bind:
  assumes m: "adds P m" and f: "\<And>x. adds P (f x)"
  shows "adds P (bind m f)"
  unfolding adds_def
proof
  fix t
  from m obtain evs where evs: "snd (m t) = t @ evs" "list_all P evs"
    unfolding adds_def by blast
  show "\<exists>evs. snd (bind m f t) = t @ evs \<and> list_all P evs"
  proof (cases "fst (m t)")
    case (Inl e)
    then have "bind m f t = (Inl e, t @ evs)"
      using evs(1) by (cases "m t") (simp add: bind_def)
    with evs(2) show ?thesis by auto
  next
    case (Inr x)
    then have b: "bind m f t = f x (t @ evs)"
      using evs(1) by (cases "m t") (simp add: bind_def)
    from f [of x] obtain evs' where "snd (f x (t @ evs)) = (t @ evs) @ evs'" "list_all P evs'"
      unfolding adds_def by blast
    with evs(2) b have "snd (bind m f t) = t @ (evs @ evs') \<and> list_all P (evs @ evs')"
      by simp
    then show ?thesis by blast
  qed
qed

lemma adds_get_raster_band_count:
  "adds (\<lambda>ev. \<not> is_vector_open ev) (get_raster_band_count E p)"
  unfolding get_raster_band_count_def
  by (intro adds_bind adds_emit) (auto split: option.splits intro!: adds_bind adds_emit adds_raise adds_return)

lemma adds_validate_loop:
  "adds (\<lambda>ev. \<not> is_vector_open ev) (validate_loop E rasters)"
proof (induction rasters)
  case Nil
  show ?case by (simp add: adds_return)
next
  case (Cons p ps)
  show ?case
    by (auto split: sum.splits intro!: adds_bind adds_get_raster_band_count adds_raise Cons.IH)
qed

lemma adds_read_config_file:
  "adds (\<lambda>ev. \<not> is_vector_open ev) (read_config_file E cf)"
  unfolding read_config_file_def config_read_def logger_debug_def
  by (auto split: cfg_file.splits
        intro!: adds_bind adds_emit adds_raise adds_return adds_lift)

lemma adds_main: "adds (\<lambda>ev. \<not> is_vector_open ev) (main E argv)"
  unfolding main_def setup_logging_def logger_debug_def logger_info_def
    call_all_raster_files_def call_build_trainset_def validate_rasters_band_count_def
  by (auto split: option.splits
        intro!: adds_bind adds_emit adds_raise adds_return adds_lift adds_read_config_file
          adds_validate_loop)

text \<open>
  Claim C8, as the code has it. No run of \<open>main\<close> opens the vector file: \<open>main\<close> does not
  call \<open>get_vector_crs\<close>, it only passes the vector path to \<open>build_trainset\<close>.
  \<open>get_vector_crs\<close> itself opens the file it is given exactly once.
\<close>

theorem main_never_opens_vector:
  "(\<exists>evs. snd (main E argv t) = t @ evs \<and> filter is_vector_open evs = []) \<and>
   filter is_vector_open (snd (get_vector_crs E vector_path t)) =
     filter is_vector_open t @ [VectorOpen vector_path]"
proof -
  from adds_main [of E argv] obtain evs where
    "snd (main E argv t) = t @ evs" "list_all (\<lambda>ev. \<not> is_vector_open ev) evs"
    unfolding adds_def by blast
  then have "\<exists>evs. snd (main E argv t) = t @ evs \<and> filter is_vector_open evs = []"
    by (auto simp: filter_empty_conv list_all_iff)
  moreover have "filter is_vector_open (snd (get_vector_crs E vector_path t)) =
     filter is_vector_open t @ [VectorOpen vector_path]"
    by (simp add: get_vector_crs_def comp_defs split: option.splits)
  ultimately show ?thesis by blast
qed

text \<open>The complete run of the example world, and \<open>get_vector_crs\<close> on its vector file.\<close>

theorem main_never_opens_vector_witness:
  "(\<exists>evs. snd (main example_env [''rasters'', ''labels.geojson''] []) = [] @ evs \<and>
          filter is_vector_open evs = []) \<and>
   filter is_vector_open (snd (get_vector_crs example_env ''labels.geojson'' [])) =
     [VectorOpen ''labels.geojson'']"
  using main_never_opens_vector [of example_env "[''rasters'', ''labels.geojson'']" "[]" "''labels.geojson''"]
  by simp

text \<open>
  Claim C8 as stated fails: the run completes and its events hold no opening of the
  vector file, where the claim has exactly one.
\<close>

theorem main_run_without_vector_open:
  "fst (main example_env [''rasters'', ''labels.geojson''] []) = Inr () \<and>
   filter is_vector_open (snd (main example_env [''rasters'', ''labels.geojson''] [])) = []"
proof -
  have b: "build_trainset example_env [''a.tif'', ''b.tif'', ''c.tif''] (vector example_args)
             [(''epochs'', ''10'')] (temp_dir example_args) = None"
    by (simp add: example_env_def)
  show ?thesis
    using main_run [OF parse_example example_config example_train_dict
        example_rasters example_four, of "[]"] b
    by (simp add: opened_def)
qed

end
